theory Spec2Isabelle
  imports Main
begin

section \<open>The Account service: data\<close>

text \<open>
  The service of \<^verbatim>\<open>service/routes.py\<close> answers HTTP requests on Account resources.
  Its handlers are embedded here from their source. The class \<^verbatim>\<open>Account\<close> of
  \<^verbatim>\<open>service/models.py\<close> and the error handlers of \<^verbatim>\<open>service/common\<close> are
  used by the handlers but are not among the sources; their definitions follow the
  specification and say so.
\<close>

subsection \<open>JSON values\<close>

text \<open>
  What \<^verbatim>\<open>request.get_json()\<close> returns and what \<^verbatim>\<open>jsonify\<close> takes. An object is
  the list of its key/value pairs and is read with \<open>map_of\<close>, as a Python dict is read
  by key. Numbers are integers: no handler looks at a number of a body.
\<close>

datatype json =
    JNull
  | JBool bool
  | JNum int
  | JStr string
  | JArr "json list"
  | JObj "(string \<times> json) list"

subsection \<open>Errors\<close>

text \<open>
  \<open>Abort code description\<close> is Flask's \<^verbatim>\<open>abort(code, description)\<close>;
  \<open>ValidationError attribute\<close> and \<open>PersistenceError\<close> are the failures of the
  Account entity (section 7 of the specification).
\<close>

datatype error =
    Abort nat string
  | ValidationError string
  | PersistenceError

subsection \<open>Requests and responses\<close>

text \<open>
  Of a request the handlers read two things: \<^verbatim>\<open>request.headers.get("Content-Type")\<close>,
  which is \<open>None\<close> when the header is absent, and \<^verbatim>\<open>request.get_json()\<close>.
  \<open>json_data\<close> is the body parsed as JSON, \<open>None\<close> when the body is not JSON text.
\<close>

record request =
  content_type :: "string option"
  json_data :: "json option"

text \<open>
  Flask's \<^verbatim>\<open>Request.mimetype\<close>: the Content-Type up to its first semicolon, stripped of
  white space and in lower case, and the empty string when there is no header.
  \<open>isspace\<close>, \<open>strip\<close> and \<open>lower\<close> are Python's, on ASCII.
\<close>

definition isspace :: "char \<Rightarrow> bool" where
  "isspace c = (c \<in> {CHR '' '', CHR 0x09, CHR 0x0A, CHR 0x0B, CHR 0x0C, CHR 0x0D,
     CHR 0x1C, CHR 0x1D, CHR 0x1E, CHR 0x1F})"

definition strip :: "string \<Rightarrow> string" where
  "strip v = rev (dropWhile isspace (rev (dropWhile isspace v)))"

definition lower_char :: "char \<Rightarrow> char" where
  "lower_char c =
     (case map_of (zip ''ABCDEFGHIJKLMNOPQRSTUVWXYZ'' ''abcdefghijklmnopqrstuvwxyz'') c of
        None \<Rightarrow> c
      | Some l \<Rightarrow> l)"

definition lower :: "string \<Rightarrow> string" where
  "lower v = map lower_char v"

definition mimetype :: "request \<Rightarrow> string" where
  "mimetype req =
     (case content_type req of
        None \<Rightarrow> []
      | Some ct \<Rightarrow> lower (strip (takeWhile (\<lambda>c. c \<noteq> CHR '';'') ct)))"

definition startswith :: "string \<Rightarrow> string \<Rightarrow> bool" where
  "startswith v p = (take (length p) v = p)"

definition endswith :: "string \<Rightarrow> string \<Rightarrow> bool" where
  "endswith v q = (length q \<le> length v \<and> drop (length v - length q) v = q)"

text \<open>
  Flask's \<^verbatim>\<open>Request.is_json\<close>: \<^verbatim>\<open>mt == "application/json" or
  mt.startswith("application/") and mt.endswith("+json")\<close>.
\<close>

definition is_json :: "request \<Rightarrow> bool" where
  "is_json req =
     (let mt = mimetype req
      in mt = ''application/json'' \<or> startswith mt ''application/'' \<and> endswith mt ''+json'')"

text \<open>
  Flask's \<^verbatim>\<open>request.get_json()\<close>, called without \<^verbatim>\<open>force\<close> as the handlers call
  it. It parses the body only of a request that \<open>is_json\<close>, and raises
  \<^verbatim>\<open>BadRequest\<close> (400) when the body is not JSON text (the description goes on with
  the message of the decoder, left out here). What it does for a request that is not
  JSON depends on the Flask and Werkzeug installed, which the sources do not fix:
  before Flask 2.1 it returns \<^verbatim>\<open>None\<close>, from Flask 2.1 it raises \<^verbatim>\<open>BadRequest\<close>
  (400), and with Werkzeug 2.3 or later \<^verbatim>\<open>UnsupportedMediaType\<close> (415).
\<close>

datatype flask = Returns_None | Raises_400 | Raises_415

definition not_json_description :: string where
  "not_json_description = ''Did not attempt to load JSON data because the request''
     @ '' Content-Type was not '' @ [CHR 0x27] @ ''application/json'' @ [CHR 0x27] @ ''.''"

fun on_not_json :: "flask \<Rightarrow> error + json" where
  "on_not_json Returns_None = Inr JNull"
| "on_not_json Raises_400 = Inl (Abort 400 not_json_description)"
| "on_not_json Raises_415 = Inl (Abort 415 not_json_description)"

definition get_json :: "flask \<Rightarrow> request \<Rightarrow> error + json" where
  "get_json fl req =
     (if is_json req then
        (case json_data req of
           None \<Rightarrow> Inl (Abort 400 ''Failed to decode JSON object'')
         | Some j \<Rightarrow> Inr j)
      else on_not_json fl)"

datatype body = Text string | Json json

record response =
  status :: nat
  headers :: "(string \<times> string) list"
  body :: body

definition jsonify :: "json \<Rightarrow> body" where
  "jsonify j = Json j"

definition make_response :: "body \<Rightarrow> nat \<Rightarrow> (string \<times> string) list \<Rightarrow> response" where
  "make_response b code hs = \<lparr>status = code, headers = hs, body = b\<rparr>"

text \<open>The status codes of \<^verbatim>\<open>service.common.status\<close> that the handlers name.\<close>

definition HTTP_200_OK :: nat where "HTTP_200_OK = 200"
definition HTTP_201_CREATED :: nat where "HTTP_201_CREATED = 201"
definition HTTP_204_NO_CONTENT :: nat where "HTTP_204_NO_CONTENT = 204"
definition HTTP_400_BAD_REQUEST :: nat where "HTTP_400_BAD_REQUEST = 400"
definition HTTP_404_NOT_FOUND :: nat where "HTTP_404_NOT_FOUND = 404"
definition HTTP_415_UNSUPPORTED_MEDIA_TYPE :: nat where "HTTP_415_UNSUPPORTED_MEDIA_TYPE = 415"
definition HTTP_500_INTERNAL_SERVER_ERROR :: nat where "HTTP_500_INTERNAL_SERVER_ERROR = 500"

text \<open>
  Modelled from the spec: the error handlers of \<^verbatim>\<open>service/common/error_handlers.py\<close>
  are missing. Section 4.3: an abort answers with its own code, a validation failure
  with 400, a failure of persistence with 500.
\<close>

fun error_status :: "error \<Rightarrow> nat" where
  "error_status (Abort code description) = code"
| "error_status (ValidationError attribute) = HTTP_400_BAD_REQUEST"
| "error_status PersistenceError = HTTP_500_INTERNAL_SERVER_ERROR"

text \<open>The status code the client sees for the outcome of a handler.\<close>

fun http_status :: "error + response \<Rightarrow> nat" where
  "http_status (Inl e) = error_status e"
| "http_status (Inr r) = status r"

subsection \<open>Python's \<^verbatim>\<open>str\<close> of an integer\<close>

text \<open>Used by the f-strings of the not-found messages.\<close>

function str_nat :: "nat \<Rightarrow> string" where
  "str_nat n =
     (if n < 10 then [''0123456789'' ! n]
      else str_nat (n div 10) @ [''0123456789'' ! (n mod 10)])"
  by pat_completeness auto
termination
  by (relation "measure (\<lambda>n. n)") auto

declare str_nat.simps [simp del]

definition str_int :: "int \<Rightarrow> string" where
  "str_int i = (if i < 0 then CHR ''-'' # str_nat (nat (- i)) else str_nat (nat i))"

section \<open>The Account entity and its store\<close>

type_synonym date = string

text \<open>
  Modelled from the spec: the class \<^verbatim>\<open>Account\<close> of \<^verbatim>\<open>service/models.py\<close> is
  missing. Section 3: \<^verbatim>\<open>id\<close> is an integer assigned by the server, so an entity that
  was never stored has none; \<^verbatim>\<open>name\<close>, \<^verbatim>\<open>email\<close> and \<^verbatim>\<open>address\<close> are strings;
  \<^verbatim>\<open>phone_number\<close> is an optional string; \<^verbatim>\<open>date_joined\<close> is a date, assigned at
  creation when absent. A date is kept as its text, the form it has in a body.
\<close>

record account =
  acc_id :: "int option"
  name :: string
  email :: string
  address :: string
  phone_number :: "string option"
  date_joined :: "date option"

text \<open>
  Modelled from the spec: \<^verbatim>\<open>Account()\<close>, the transient instance a handler makes
  before it fills it from the body: nothing assigned yet.
\<close>

definition Account :: account where
  "Account = \<lparr>acc_id = None, name = [], email = [], address = [],
     phone_number = None, date_joined = None\<rparr>"

text \<open>
  Modelled from the spec: the database behind \<^verbatim>\<open>Account\<close> is missing. The records
  are kept in insertion order (section 4.1, \<^verbatim>\<open>all()\<close>); \<open>next_id\<close> is the next
  identifier to assign, so that an id is never reused after deletion (section 3).
\<close>

record store =
  rows :: "account list"
  next_id :: int

definition empty_store :: store where
  "empty_store = \<lparr>rows = [], next_id = 1\<rparr>"

text \<open>
  Modelled from the spec: \<^verbatim>\<open>Account.find\<close> and \<^verbatim>\<open>Account.all\<close> (section 4.1):
  \<^verbatim>\<open>find\<close> returns an optional entity, \<^verbatim>\<open>all\<close> the sequence of all records.
\<close>

definition find_account :: "store \<Rightarrow> int \<Rightarrow> account option" where
  "find_account s i = List.find (\<lambda>a. acc_id a = Some i) (rows s)"

definition all_accounts :: "store \<Rightarrow> account list" where
  "all_accounts s = rows s"

text \<open>
  Modelled from the spec: \<^verbatim>\<open>Account.serialize\<close> (section 4.1): the flat
  representation with exactly the six fields of section 3. An attribute with no value
  is \<^verbatim>\<open>null\<close>.
\<close>

fun json_of_int_option :: "int option \<Rightarrow> json" where
  "json_of_int_option None = JNull"
| "json_of_int_option (Some i) = JNum i"

fun json_of_string_option :: "string option \<Rightarrow> json" where
  "json_of_string_option None = JNull"
| "json_of_string_option (Some v) = JStr v"

definition serialize :: "account \<Rightarrow> json" where
  "serialize a = JObj
     [(''id'', json_of_int_option (acc_id a)),
      (''name'', JStr (name a)),
      (''email'', JStr (email a)),
      (''address'', JStr (address a)),
      (''phone_number'', json_of_string_option (phone_number a)),
      (''date_joined'', json_of_string_option (date_joined a))]"

text \<open>
  Modelled from the spec: \<^verbatim>\<open>Account.deserialize\<close> (section 4.1). It consumes a
  key/value mapping and populates \<^verbatim>\<open>name\<close>, \<^verbatim>\<open>email\<close>, \<^verbatim>\<open>address\<close>,
  \<^verbatim>\<open>phone_number\<close> (optional) and \<^verbatim>\<open>date_joined\<close> (optional, the current date if
  absent); \<^verbatim>\<open>id\<close> is not read. It fails with a \<open>ValidationError\<close> that names the
  attribute when a required key is missing, and when the payload is not a mapping.
  Unknown keys are ignored. The attributes are strings (section 3): a value of another
  JSON type is reported as that attribute being invalid, and an optional attribute
  given as \<^verbatim>\<open>null\<close> counts as absent.
\<close>

fun required_string :: "(string \<times> json) list \<Rightarrow> string \<Rightarrow> error + string" where
  "required_string data key =
     (case map_of data key of
        None \<Rightarrow> Inl (ValidationError key)
      | Some (JStr v) \<Rightarrow> Inr v
      | Some _ \<Rightarrow> Inl (ValidationError key))"

fun optional_string :: "(string \<times> json) list \<Rightarrow> string \<Rightarrow> error + string option" where
  "optional_string data key =
     (case map_of data key of
        None \<Rightarrow> Inr None
      | Some JNull \<Rightarrow> Inr None
      | Some (JStr v) \<Rightarrow> Inr (Some v)
      | Some _ \<Rightarrow> Inl (ValidationError key))"

fun deserialize :: "date \<Rightarrow> account \<Rightarrow> json \<Rightarrow> error + account" where
  "deserialize today a (JObj data) =
     (case required_string data ''name'' of
        Inl e \<Rightarrow> Inl e
      | Inr n \<Rightarrow>
     (case required_string data ''email'' of
        Inl e \<Rightarrow> Inl e
      | Inr em \<Rightarrow>
     (case required_string data ''address'' of
        Inl e \<Rightarrow> Inl e
      | Inr ad \<Rightarrow>
     (case optional_string data ''phone_number'' of
        Inl e \<Rightarrow> Inl e
      | Inr ph \<Rightarrow>
     (case optional_string data ''date_joined'' of
        Inl e \<Rightarrow> Inl e
      | Inr dj \<Rightarrow>
          Inr (a\<lparr>name := n, email := em, address := ad, phone_number := ph,
                 date_joined := (case dj of None \<Rightarrow> Some today | Some d \<Rightarrow> Some d)\<rparr>))))))"
| "deserialize today a payload = Inl (ValidationError ''payload'')"

text \<open>
  Modelled from the spec: \<^verbatim>\<open>Account.create\<close> (section 4.1): persists a new record
  and assigns \<^verbatim>\<open>id\<close> and \<^verbatim>\<open>date_joined\<close> (the latter when absent) as part of it.
  Storage is taken as reliable within a request (section 7).
\<close>

definition create :: "date \<Rightarrow> store \<Rightarrow> account \<Rightarrow> store \<times> account" where
  "create today s a =
     (let a' = a\<lparr>acc_id := Some (next_id s),
                  date_joined := (case date_joined a of None \<Rightarrow> Some today | Some d \<Rightarrow> Some d)\<rparr>
      in (\<lparr>rows = rows s @ [a'], next_id = next_id s + 1\<rparr>, a'))"

text \<open>
  Modelled from the spec: \<^verbatim>\<open>Account.update\<close> (section 4.1): persists changes to
  the existing record identified by \<^verbatim>\<open>id\<close>, and fails with a \<open>PersistenceError\<close>
  when that record no longer exists. The specification does not say what happens for an
  entity that was never stored and so has no id. The test \<^verbatim>\<open>test_update_account\<close>
  of \<^verbatim>\<open>tests/test_routes.py\<close> gets 200 from \<^verbatim>\<open>update_account\<close>, which calls
  \<^verbatim>\<open>update\<close> on such an entity: the call returns normally, and there is no record
  for it to write to.
\<close>

definition update :: "store \<Rightarrow> account \<Rightarrow> error + store" where
  "update s a =
     (case acc_id a of
        None \<Rightarrow> Inr s
      | Some i \<Rightarrow>
          (case find_account s i of
             None \<Rightarrow> Inl PersistenceError
           | Some old \<Rightarrow>
               Inr (s\<lparr>rows := map (\<lambda>r. if acc_id r = Some i then a else r) (rows s)\<rparr>)))"

text \<open>
  Modelled from the spec: \<^verbatim>\<open>Account.delete\<close> (section 4.1): removes the record
  (the row with the entity's id); nothing happens when it is already absent.
\<close>

definition delete :: "store \<Rightarrow> account \<Rightarrow> store" where
  "delete s a = s\<lparr>rows := filter (\<lambda>r. acc_id r \<noteq> acc_id a) (rows s)\<rparr>"

section \<open>The handlers of \<^verbatim>\<open>service/routes.py\<close>\<close>

text \<open>
  A handler takes the store and the request and returns its outcome, a response or the
  error that ended it, together with the store it leaves. \<open>today\<close> is the current
  date, which the entity reads when a body gives no \<^verbatim>\<open>date_joined\<close>; \<open>fl\<close> is the
  Flask that answers \<^verbatim>\<open>request.get_json()\<close>.
\<close>

type_synonym outcome = "(error + response) \<times> store"

subsection \<open>\<^verbatim>\<open>check_content_type\<close>\<close>

text \<open>
  \<^verbatim>\<open>if content_type and content_type == media_type: return\<close>, otherwise
  \<^verbatim>\<open>abort(415, f"Content-Type must be {media_type}")\<close>. An empty string is false in
  Python, as \<^verbatim>\<open>None\<close> is.
\<close>

definition check_content_type :: "request \<Rightarrow> string \<Rightarrow> error + unit" where
  "check_content_type req media_type =
     (case content_type req of
        None \<Rightarrow>
          Inl (Abort HTTP_415_UNSUPPORTED_MEDIA_TYPE (''Content-Type must be '' @ media_type))
      | Some ct \<Rightarrow>
          if ct \<noteq> [] \<and> ct = media_type then Inr ()
          else Inl (Abort HTTP_415_UNSUPPORTED_MEDIA_TYPE
                      (''Content-Type must be '' @ media_type)))"

subsection \<open>\<^verbatim>\<open>create_accounts\<close>: POST /accounts\<close>

definition create_accounts :: "flask \<Rightarrow> date \<Rightarrow> store \<Rightarrow> request \<Rightarrow> outcome" where
  "create_accounts fl today s req =
     (case check_content_type req ''application/json'' of
        Inl e \<Rightarrow> (Inl e, s)
      | Inr _ \<Rightarrow>
     (case get_json fl req of
        Inl e \<Rightarrow> (Inl e, s)
      | Inr data \<Rightarrow>
     (case deserialize today Account data of
        Inl e \<Rightarrow> (Inl e, s)
      | Inr account \<Rightarrow>
          (let (s', account') = create today s account;
               message = serialize account';
               location_url = ''/''
           in (Inr (make_response (jsonify message) HTTP_201_CREATED
                      [(''Location'', location_url)]), s')))))"

subsection \<open>\<^verbatim>\<open>list_all_accounts\<close>: GET /accounts\<close>

text \<open>The loop \<^verbatim>\<open>for account in result: accounts = accounts + [account.serialize()]\<close>.\<close>

fun serialize_each :: "json list \<Rightarrow> account list \<Rightarrow> json list" where
  "serialize_each accounts [] = accounts"
| "serialize_each accounts (account # result) =
     serialize_each (accounts @ [serialize account]) result"

definition list_all_accounts :: "store \<Rightarrow> outcome" where
  "list_all_accounts s =
     (let result = all_accounts s;
          accounts = []
      in if result = [] then
           (Inr (make_response (jsonify (JArr accounts)) HTTP_200_OK []), s)
         else
           (Inr (make_response (jsonify (JArr (serialize_each accounts result)))
                   HTTP_200_OK []), s))"

subsection \<open>\<^verbatim>\<open>read_an_account\<close>: GET /accounts/<id>\<close>

definition not_found :: "int \<Rightarrow> error" where
  "not_found i =
     Abort HTTP_404_NOT_FOUND (''Account id ['' @ str_int i @ ''] could not be found'')"

text \<open>
  \<^verbatim>\<open>return result.serialize(), status.HTTP_200_OK\<close>: Flask answers a dict returned
  with a status as the JSON response of that status.
\<close>

definition read_an_account :: "store \<Rightarrow> int \<Rightarrow> outcome" where
  "read_an_account s acc_id' =
     (case find_account s acc_id' of
        None \<Rightarrow> (Inl (not_found acc_id'), s)
      | Some result \<Rightarrow>
          (Inr (make_response (jsonify (serialize result)) HTTP_200_OK []), s))"

subsection \<open>\<^verbatim>\<open>update_account\<close>: PUT /accounts/<id>\<close>

text \<open>
  The handler looks the id up, then makes a new \<^verbatim>\<open>Account()\<close>, fills it from the
  body and calls \<^verbatim>\<open>update\<close> on it; the record it found is not used again.
\<close>

definition update_account :: "flask \<Rightarrow> date \<Rightarrow> store \<Rightarrow> int \<Rightarrow> request \<Rightarrow> outcome" where
  "update_account fl today s account_id req =
     (case find_account s account_id of
        None \<Rightarrow> (Inl (not_found account_id), s)
      | Some result \<Rightarrow>
     (case get_json fl req of
        Inl e \<Rightarrow> (Inl e, s)
      | Inr data \<Rightarrow>
     (case deserialize today Account data of
        Inl e \<Rightarrow> (Inl e, s)
      | Inr account \<Rightarrow>
     (case update s account of
        Inl e \<Rightarrow> (Inl e, s)
      | Inr s' \<Rightarrow>
          (Inr (make_response (jsonify (serialize account)) HTTP_200_OK []), s')))))"

subsection \<open>\<^verbatim>\<open>delete_account\<close>: DELETE /accounts/<id>\<close>

definition delete_account :: "store \<Rightarrow> int \<Rightarrow> outcome" where
  "delete_account s account_id =
     (case find_account s account_id of
        None \<Rightarrow> (Inl (not_found account_id), s)
      | Some result \<Rightarrow>
          (let s' = delete s result;
               result_return = ''''
           in (Inr (make_response (Text result_return) HTTP_204_NO_CONTENT []), s')))"

subsection \<open>Requests in sequence\<close>

text \<open>
  The service answers one request after the other, each on the store the one before
  left. \<open>create_accounts_seq\<close> posts a list of requests to \<^verbatim>\<open>/accounts\<close> in
  order, as \<^verbatim>\<open>_create_accounts\<close> of \<^verbatim>\<open>tests/test_routes.py\<close> does, and returns
  the outcomes with the last store. \<open>created\<close> holds of the outcome of a request that
  created an account.
\<close>

fun create_accounts_seq ::
  "flask \<Rightarrow> date \<Rightarrow> store \<Rightarrow> request list \<Rightarrow> (error + response) list \<times> store" where
  "create_accounts_seq fl today s [] = ([], s)"
| "create_accounts_seq fl today s (req # reqs) =
     (let (r, s') = create_accounts fl today s req;
          (rs, s'') = create_accounts_seq fl today s' reqs
      in (r # rs, s''))"

fun created :: "error + response \<Rightarrow> bool" where
  "created (Inl e) = False"
| "created (Inr r) = (status r = HTTP_201_CREATED)"

subsection \<open>Paths and example requests\<close>

text \<open>
  The path that the routes \<^verbatim>\<open>/accounts/<int:acc_id>\<close> of \<^verbatim>\<open>read_an_account\<close>,
  \<^verbatim>\<open>update_account\<close> and \<^verbatim>\<open>delete_account\<close> answer for an id.
\<close>

definition account_path :: "int \<Rightarrow> string" where
  "account_path i = ''/accounts/'' @ str_int i"

text \<open>
  The requests of the concrete scenario of the specification (section 8), sent as the
  test client sends them with \<^verbatim>\<open>json=...\<close>, that is with the JSON content type.
\<close>

definition json_request :: "json \<Rightarrow> request" where
  "json_request j = \<lparr>content_type = Some ''application/json'', json_data = Some j\<rparr>"

definition ann :: json where
  "ann = JObj [(''name'', JStr ''Ann''), (''email'', JStr ''a@x.com''),
     (''address'', JStr ''1 Main St'')]"

definition ann_new_email :: json where
  "ann_new_email = JObj [(''name'', JStr ''Ann''), (''email'', JStr ''b@x.com''),
     (''address'', JStr ''1 Main St'')]"

definition ann_stored :: account where
  "ann_stored = \<lparr>acc_id = Some 1, name = ''Ann'', email = ''a@x.com'',
     address = ''1 Main St'', phone_number = None, date_joined = Some ''2024-05-01''\<rparr>"

definition store_ann :: store where
  "store_ann = \<lparr>rows = [ann_stored], next_id = 2\<rparr>"

definition ann_second :: account where
  "ann_second = \<lparr>acc_id = Some 2, name = ''Ann'', email = ''b@x.com'',
     address = ''1 Main St'', phone_number = None, date_joined = Some ''2024-05-01''\<rparr>"

definition store_two :: store where
  "store_two = \<lparr>rows = [ann_stored, ann_second], next_id = 3\<rparr>"

section \<open>The content-type check\<close>

lemmas status_defs =
  HTTP_200_OK_def HTTP_201_CREATED_def HTTP_204_NO_CONTENT_def HTTP_400_BAD_REQUEST_def
  HTTP_404_NOT_FOUND_def HTTP_415_UNSUPPORTED_MEDIA_TYPE_def
  HTTP_500_INTERNAL_SERVER_ERROR_def

lemma check_content_type_415:
  "check_content_type req m = Inr () \<or>
   check_content_type req m = Inl (Abort 415 (''Content-Type must be '' @ m))"
  by (simp add: check_content_type_def status_defs split: option.split)

lemma check_content_type_passes:
  "(check_content_type req m = Inr ()) = (content_type req = Some m \<and> m \<noteq> [])"
  by (auto simp: check_content_type_def split: option.split)

text \<open>
  C10: the check accepts a Content-Type only when it is, character for character, the
  expected media type; every other header is rejected with 415, so a parameterised
  variant, another letter case, the empty header and the absent header are.
\<close>

theorem check_content_type_exact:
  "(check_content_type req ''application/json'' = Inr ())
      = (content_type req = Some ''application/json'')
   \<and> (content_type req \<noteq> Some ''application/json'' \<longrightarrow>
        check_content_type req ''application/json''
          = Inl (Abort 415 ''Content-Type must be application/json''))
   \<and> http_status (Inl (Abort 415 ''Content-Type must be application/json'')) = 415"
  using check_content_type_415 [of req "''application/json''"]
    check_content_type_passes [of req "''application/json''"]
  by auto

theorem check_content_type_exact_witness:
  "check_content_type \<lparr>content_type = Some ''application/json; charset=utf-8'', json_data = Some JNull\<rparr>
       ''application/json'' = Inl (Abort 415 ''Content-Type must be application/json'')
   \<and> check_content_type \<lparr>content_type = Some ''Application/JSON'', json_data = Some JNull\<rparr>
       ''application/json'' = Inl (Abort 415 ''Content-Type must be application/json'')
   \<and> check_content_type \<lparr>content_type = Some '''', json_data = Some JNull\<rparr>
       ''application/json'' = Inl (Abort 415 ''Content-Type must be application/json'')
   \<and> check_content_type \<lparr>content_type = None, json_data = Some JNull\<rparr>
       ''application/json'' = Inl (Abort 415 ''Content-Type must be application/json'')
   \<and> check_content_type \<lparr>content_type = Some ''application/json'', json_data = Some JNull\<rparr>
       ''application/json'' = Inr ()"
  using
    check_content_type_exact
      [of "\<lparr>content_type = Some ''application/json; charset=utf-8'', json_data = Some JNull\<rparr>"]
    check_content_type_exact
      [of "\<lparr>content_type = Some ''Application/JSON'', json_data = Some JNull\<rparr>"]
    check_content_type_exact [of "\<lparr>content_type = Some '''', json_data = Some JNull\<rparr>"]
    check_content_type_exact [of "\<lparr>content_type = None, json_data = Some JNull\<rparr>"]
    check_content_type_exact [of "\<lparr>content_type = Some ''application/json'', json_data = Some JNull\<rparr>"]
  by simp

section \<open>Deserialization\<close>

lemma required_string_Inl: "required_string d k = Inl e \<Longrightarrow> e = ValidationError k"
  by (auto split: option.splits json.splits)

lemma required_string_Inr: "(required_string d k = Inr v) = (map_of d k = Some (JStr v))"
  by (auto split: option.splits json.splits)

lemma required_string_missing:
  "map_of d k = None \<Longrightarrow> required_string d k = Inl (ValidationError k)"
  by simp

lemma optional_string_Inl: "optional_string d k = Inl e \<Longrightarrow> e = ValidationError k"
  by (auto split: option.splits json.splits)

lemma optional_string_Inr:
  "(optional_string d k = Inr v) =
     (v = (case map_of d k of Some (JStr x) \<Rightarrow> Some x | _ \<Rightarrow> None)
      \<and> (map_of d k = None \<or> map_of d k = Some JNull \<or> (\<exists>x. map_of d k = Some (JStr x))))"
  by (auto split: option.splits json.splits)

declare required_string.simps [simp del] optional_string.simps [simp del]

lemma deserialize_Inl:
  "deserialize today a p = Inl e \<Longrightarrow> \<exists>k. e = ValidationError k"
  by (cases p)
    (auto split: sum.splits dest: required_string_Inl optional_string_Inl)

lemma deserialize_error_status:
  "deserialize today a p = Inl e \<Longrightarrow> error_status e = 400"
  by (auto dest: deserialize_Inl simp: HTTP_400_BAD_REQUEST_def)

section \<open>Flask's \<^verbatim>\<open>get_json\<close>\<close>

lemma mimetype_exact:
  "content_type req = Some ''application/json'' \<Longrightarrow> mimetype req = ''application/json''"
  by (simp add: mimetype_def lower_def strip_def isspace_def lower_char_def)

lemma is_json_exact: "content_type req = Some ''application/json'' \<Longrightarrow> is_json req"
  by (simp add: is_json_def mimetype_exact)

lemma get_json_exact:
  "content_type req = Some ''application/json'' \<Longrightarrow>
   get_json fl req =
     (case json_data req of
        None \<Rightarrow> Inl (Abort 400 ''Failed to decode JSON object'')
      | Some j \<Rightarrow> Inr j)"
  by (simp add: get_json_def is_json_exact)

lemma get_json_Inl:
  "get_json fl req = Inl e \<Longrightarrow>
   is_json req \<and> e = Abort 400 ''Failed to decode JSON object''
   \<or> \<not> is_json req \<and> fl = Raises_400 \<and> e = Abort 400 not_json_description
   \<or> \<not> is_json req \<and> fl = Raises_415 \<and> e = Abort 415 not_json_description"
  by (cases fl) (auto simp: get_json_def split: if_splits option.splits)

lemma get_json_content_type:
  "is_json (req\<lparr>content_type := ct\<rparr>) = is_json req \<Longrightarrow>
   get_json fl (req\<lparr>content_type := ct\<rparr>) = get_json fl req"
  by (simp add: get_json_def)

section \<open>Create\<close>

lemma create_accounts_rejects:
  "content_type req \<noteq> Some ''application/json'' \<Longrightarrow>
   create_accounts fl today s req
     = (Inl (Abort 415 ''Content-Type must be application/json''), s)"
  using check_content_type_415 [of req "''application/json''"]
    check_content_type_passes [of req "''application/json''"]
  by (auto simp: create_accounts_def)

lemma create_accounts_checked:
  "content_type req = Some ''application/json'' \<Longrightarrow>
   create_accounts fl today s req =
     (case get_json fl req of
        Inl e \<Rightarrow> (Inl e, s)
      | Inr data \<Rightarrow>
     (case deserialize today Account data of
        Inl e \<Rightarrow> (Inl e, s)
      | Inr account \<Rightarrow>
          (Inr \<lparr>status = 201, headers = [(''Location'', ''/'')],
                 body = Json (serialize (snd (create today s account)))\<rparr>,
           fst (create today s account))))"
  using check_content_type_passes [of req "''application/json''"]
  by (simp add: create_accounts_def make_response_def jsonify_def status_defs
      split: sum.split prod.split)

text \<open>
  C3: a POST to \<^verbatim>\<open>/accounts\<close> whose Content-Type is absent or is anything but
  \<^verbatim>\<open>application/json\<close> is rejected with 415 whatever its body is, a valid JSON
  body included, and nothing is stored; when the header equals
  \<^verbatim>\<open>application/json\<close> the check passes, and the request is not answered with
  415.
\<close>

theorem create_accounts_content_type:
  "(content_type req \<noteq> Some ''application/json'' \<longrightarrow>
      create_accounts fl today s req
        = (Inl (Abort 415 ''Content-Type must be application/json''), s)
      \<and> http_status (fst (create_accounts fl today s req)) = 415)
   \<and> (content_type req = Some ''application/json'' \<longrightarrow>
      check_content_type req ''application/json'' = Inr ()
      \<and> http_status (fst (create_accounts fl today s req)) \<noteq> 415)"
proof (intro conjI impI)
  assume bad: "content_type req \<noteq> Some ''application/json''"
  show "create_accounts fl today s req
        = (Inl (Abort 415 ''Content-Type must be application/json''), s)"
    by (rule create_accounts_rejects [OF bad])
  then show "http_status (fst (create_accounts fl today s req)) = 415"
    by simp
next
  assume ok: "content_type req = Some ''application/json''"
  then show "check_content_type req ''application/json'' = Inr ()"
    by (simp add: check_content_type_passes)
  from ok show "http_status (fst (create_accounts fl today s req)) \<noteq> 415"
    by (auto simp: create_accounts_checked get_json_exact dest: deserialize_error_status
        split: sum.split option.split)
qed

theorem create_accounts_content_type_witness:
  "create_accounts Raises_415 ''2024-05-01'' store_ann
       \<lparr>content_type = Some ''text/html'', json_data = Some ann\<rparr>
     = (Inl (Abort 415 ''Content-Type must be application/json''), store_ann)
   \<and> create_accounts Raises_415 ''2024-05-01'' store_ann
       \<lparr>content_type = None, json_data = Some ann\<rparr>
     = (Inl (Abort 415 ''Content-Type must be application/json''), store_ann)
   \<and> check_content_type (json_request ann) ''application/json'' = Inr ()
   \<and> http_status (fst (create_accounts Raises_415 ''2024-05-01'' store_ann (json_request ann)))
       \<noteq> 415"
  using
    create_accounts_content_type
      [where req = "\<lparr>content_type = Some ''text/html'', json_data = Some ann\<rparr>"
         and fl = Raises_415 and today = "''2024-05-01''" and s = store_ann]
    create_accounts_content_type
      [where req = "\<lparr>content_type = None, json_data = Some ann\<rparr>"
         and fl = Raises_415 and today = "''2024-05-01''" and s = store_ann]
    create_accounts_content_type
      [where req = "json_request ann" and fl = Raises_415 and today = "''2024-05-01''"
         and s = store_ann]
  by (simp add: json_request_def)

section \<open>Update\<close>

lemma error_status_not_found: "error_status (not_found i) = 404"
  by (simp add: not_found_def status_defs)

lemma http_status_not_found: "http_status (Inl (not_found i)) = 404"
  by (simp add: error_status_not_found)

lemma update_Inl: "update s a = Inl e \<Longrightarrow> e = PersistenceError"
  by (auto simp: update_def split: option.splits)

lemma update_account_same_media_type:
  "is_json (req\<lparr>content_type := ct\<rparr>) = is_json req \<Longrightarrow>
   update_account fl today s i (req\<lparr>content_type := ct\<rparr>) = update_account fl today s i req"
  by (simp add: update_account_def get_json_content_type split: option.split)

lemma update_account_415:
  assumes "http_status (fst (update_account fl today s i req)) = 415"
  shows "\<not> is_json req \<and> fl = Raises_415
     \<and> get_json fl req = Inl (Abort 415 not_json_description)
     \<and> update_account fl today s i req = (Inl (Abort 415 not_json_description), s)"
proof (cases "find_account s i")
  case None
  with assms show ?thesis
    by (simp add: update_account_def error_status_not_found)
next
  case (Some result)
  show ?thesis
  proof (cases "get_json fl req")
    case (Inl e)
    with Some assms have "error_status e = 415"
      by (simp add: update_account_def)
    with get_json_Inl [OF Inl] have "\<not> is_json req \<and> fl = Raises_415
        \<and> e = Abort 415 not_json_description"
      by auto
    with Some Inl show ?thesis
      by (simp add: update_account_def)
  next
    case (Inr data)
    with Some assms show ?thesis
      by (auto simp: update_account_def make_response_def status_defs
          dest: deserialize_error_status update_Inl split: sum.splits)
  qed
qed

lemma not_json_description_differs:
  "not_json_description \<noteq> ''Content-Type must be application/json''"
  by (simp add: not_json_description_def)

text \<open>
  C4: the content-type check is applied by Create and not by Update. The outcome of a
  PUT to \<^verbatim>\<open>/accounts/<id>\<close> depends on the Content-Type only through Flask's own test
  of the media type when it reads the body, and it is never the abort of
  \<^verbatim>\<open>check_content_type\<close>: a PUT whose media type is JSON is never answered with 415,
  whatever the exact header, and the only 415 a PUT can get is the one that
  \<^verbatim>\<open>request.get_json()\<close> raises itself for a media type that is not JSON. A POST to
  \<^verbatim>\<open>/accounts\<close> with any other Content-Type than \<^verbatim>\<open>application/json\<close> is rejected
  with 415 by the check.
\<close>

theorem update_account_no_content_type_check:
  "(is_json (req\<lparr>content_type := ct\<rparr>) = is_json req \<longrightarrow>
      update_account fl today s i (req\<lparr>content_type := ct\<rparr>)
        = update_account fl today s i req)
   \<and> fst (update_account fl today s i req)
        \<noteq> Inl (Abort 415 ''Content-Type must be application/json'')
   \<and> (is_json req \<longrightarrow> http_status (fst (update_account fl today s i req)) \<noteq> 415)
   \<and> (http_status (fst (update_account fl today s i req)) = 415 \<longrightarrow>
        \<not> is_json req \<and> fl = Raises_415
        \<and> get_json fl req = Inl (Abort 415 not_json_description)
        \<and> update_account fl today s i req = (Inl (Abort 415 not_json_description), s))
   \<and> (content_type req \<noteq> Some ''application/json'' \<longrightarrow>
        create_accounts fl today s req
          = (Inl (Abort 415 ''Content-Type must be application/json''), s)
        \<and> http_status (fst (create_accounts fl today s req)) = 415)"
proof (intro conjI impI)
  assume "is_json (req\<lparr>content_type := ct\<rparr>) = is_json req"
  then show "update_account fl today s i (req\<lparr>content_type := ct\<rparr>)
      = update_account fl today s i req"
    by (rule update_account_same_media_type)
next
  show "fst (update_account fl today s i req)
      \<noteq> Inl (Abort 415 ''Content-Type must be application/json'')"
  proof
    assume check: "fst (update_account fl today s i req)
      = Inl (Abort 415 ''Content-Type must be application/json'')"
    then have "http_status (fst (update_account fl today s i req)) = 415"
      by simp
    from update_account_415 [OF this]
    have "update_account fl today s i req = (Inl (Abort 415 not_json_description), s)"
      by blast
    with check have "not_json_description = ''Content-Type must be application/json''"
      by simp
    with not_json_description_differs show False
      by simp
  qed
next
  assume "is_json req"
  with update_account_415 [of fl today s i req]
  show "http_status (fst (update_account fl today s i req)) \<noteq> 415"
    by blast
next
  assume st: "http_status (fst (update_account fl today s i req)) = 415"
  from update_account_415 [OF st] show "\<not> is_json req" and "fl = Raises_415"
    and "get_json fl req = Inl (Abort 415 not_json_description)"
    and "update_account fl today s i req = (Inl (Abort 415 not_json_description), s)"
    by blast+
next
  assume bad: "content_type req \<noteq> Some ''application/json''"
  then show "create_accounts fl today s req
      = (Inl (Abort 415 ''Content-Type must be application/json''), s)"
    by (rule create_accounts_rejects)
  then show "http_status (fst (create_accounts fl today s req)) = 415"
    by simp
qed

lemma is_json_charset:
  "is_json \<lparr>content_type = Some ''application/json; charset=utf-8'', json_data = d\<rparr>"
  by (simp add: is_json_def mimetype_def lower_def strip_def isspace_def lower_char_def)

lemma not_is_json_html: "\<not> is_json \<lparr>content_type = Some ''text/html'', json_data = d\<rparr>"
  by (simp add: is_json_def mimetype_def lower_def strip_def isspace_def lower_char_def
      startswith_def)

lemma update_account_ann_new_email:
  "update_account fl ''2024-05-02'' store_ann 1 (json_request ann_new_email)
     = (Inr \<lparr>status = 200, headers = [],
          body = Json (JObj [(''id'', JNull), (''name'', JStr ''Ann''),
            (''email'', JStr ''b@x.com''), (''address'', JStr ''1 Main St''),
            (''phone_number'', JNull), (''date_joined'', JStr ''2024-05-02'')])\<rparr>,
        store_ann)"
  by (simp add: update_account_def get_json_exact find_account_def store_ann_def
      ann_stored_def json_request_def ann_new_email_def
      required_string.simps optional_string.simps Account_def update_def serialize_def
      make_response_def jsonify_def status_defs)

theorem update_account_no_content_type_check_witness:
  "update_account Raises_415 ''2024-05-02'' store_ann 1
       \<lparr>content_type = Some ''application/json; charset=utf-8'',
          json_data = Some ann_new_email\<rparr>
     = update_account Raises_415 ''2024-05-02'' store_ann 1 (json_request ann_new_email)
   \<and> http_status (fst (update_account Raises_415 ''2024-05-02'' store_ann 1
        \<lparr>content_type = Some ''application/json; charset=utf-8'',
           json_data = Some ann_new_email\<rparr>)) = 200
   \<and> create_accounts Raises_415 ''2024-05-02'' store_ann
        \<lparr>content_type = Some ''application/json; charset=utf-8'',
           json_data = Some ann_new_email\<rparr>
     = (Inl (Abort 415 ''Content-Type must be application/json''), store_ann)
   \<and> update_account Raises_415 ''2024-05-02'' store_ann 1
        \<lparr>content_type = Some ''text/html'', json_data = Some ann_new_email\<rparr>
     = (Inl (Abort 415 not_json_description), store_ann)
   \<and> update_account Raises_415 ''2024-05-02'' store_ann 1
        \<lparr>content_type = Some ''text/html'', json_data = Some ann_new_email\<rparr>
     \<noteq> (Inl (Abort 415 ''Content-Type must be application/json''), store_ann)
   \<and> http_status (fst (update_account Raises_400 ''2024-05-02'' store_ann 1
        \<lparr>content_type = Some ''text/html'', json_data = Some ann_new_email\<rparr>)) = 400"
proof -
  let ?put = "json_request ann_new_email"
  let ?charset = "\<lparr>content_type = Some ''application/json; charset=utf-8'',
    json_data = Some ann_new_email\<rparr>"
  let ?html = "\<lparr>content_type = Some ''text/html'', json_data = Some ann_new_email\<rparr>"
  have charset: "?put\<lparr>content_type := Some ''application/json; charset=utf-8''\<rparr> = ?charset"
    by (simp add: json_request_def)
  have same: "is_json (?put\<lparr>content_type := Some ''application/json; charset=utf-8''\<rparr>)
      = is_json ?put"
    unfolding charset by (simp add: is_json_charset is_json_exact json_request_def)
  have html: "get_json Raises_415 ?html = Inl (Abort 415 not_json_description)"
    "get_json Raises_400 ?html = Inl (Abort 400 not_json_description)"
    by (simp_all add: get_json_def not_is_json_html)
  have found: "find_account store_ann 1 = Some ann_stored"
    by (simp add: find_account_def store_ann_def ann_stored_def)
  have header: "content_type ?charset \<noteq> Some ''application/json''"
    by simp
  note put = update_account_no_content_type_check
    [where req = ?put and ct = "Some ''application/json; charset=utf-8''"
       and fl = Raises_415 and today = "''2024-05-02''" and s = store_ann and i = 1]
  note post = update_account_no_content_type_check
    [where req = ?charset and ct = None
       and fl = Raises_415 and today = "''2024-05-02''" and s = store_ann and i = 1]
  from put same
  have "update_account Raises_415 ''2024-05-02'' store_ann 1
      (?put\<lparr>content_type := Some ''application/json; charset=utf-8''\<rparr>)
    = update_account Raises_415 ''2024-05-02'' store_ann 1 ?put"
    by blast
  then have w1: "update_account Raises_415 ''2024-05-02'' store_ann 1 ?charset
    = update_account Raises_415 ''2024-05-02'' store_ann 1 ?put"
    unfolding charset .
  have w2: "http_status (fst (update_account Raises_415 ''2024-05-02'' store_ann 1 ?charset))
    = 200"
    unfolding w1 by (simp add: update_account_ann_new_email)
  from post header
  have w3: "create_accounts Raises_415 ''2024-05-02'' store_ann ?charset
    = (Inl (Abort 415 ''Content-Type must be application/json''), store_ann)"
    by blast
  have w4: "update_account Raises_415 ''2024-05-02'' store_ann 1 ?html
    = (Inl (Abort 415 not_json_description), store_ann)"
    by (simp add: update_account_def found html)
  have w5: "update_account Raises_415 ''2024-05-02'' store_ann 1 ?html
    \<noteq> (Inl (Abort 415 ''Content-Type must be application/json''), store_ann)"
    unfolding w4 using not_json_description_differs by simp
  have w6: "http_status (fst (update_account Raises_400 ''2024-05-02'' store_ann 1 ?html))
    = 400"
    by (simp add: update_account_def found html)
  show ?thesis
    by (intro conjI w1 w2 w3 w4 w5 w6)
qed

text \<open>
  C5: a PUT to \<^verbatim>\<open>/accounts/<id>\<close> for an id with no stored record is answered with
  404 and leaves the store as it was, whatever the request holds: the handler finds the
  id missing before it reads or deserializes the body and before it calls
  \<^verbatim>\<open>update\<close>.
\<close>

theorem update_account_not_found:
  assumes "find_account s i = None"
  shows "update_account fl today s i req = (Inl (not_found i), s)
         \<and> http_status (fst (update_account fl today s i req)) = 404"
  using assms by (simp add: update_account_def error_status_not_found)

theorem update_account_not_found_witness:
  "find_account store_ann 0 = None
   \<and> update_account Raises_415 ''2024-05-02'' store_ann 0 (json_request (JObj [(''name'', JStr ''x'')]))
       = (Inl (not_found 0), store_ann)
   \<and> http_status (fst (update_account Raises_415 ''2024-05-02'' store_ann 0
         (json_request (JObj [(''name'', JStr ''x'')])))) = 404"
proof -
  have missing: "find_account store_ann 0 = None"
    by (simp add: find_account_def store_ann_def ann_stored_def)
  from update_account_not_found [OF missing] missing show ?thesis
    by (simp add: error_status_not_found)
qed

section \<open>Delete and read\<close>

lemma find_account_id: "find_account s i = Some a \<Longrightarrow> acc_id a = Some i"
  by (auto simp: find_account_def find_Some_iff)

lemma find_account_delete:
  "acc_id a = Some i \<Longrightarrow> find_account (delete s a) i = None"
  by (simp add: find_account_def delete_def find_None_iff)

text \<open>
  C6: a DELETE of an existing id is answered with 204 and an empty body, and a GET of
  that id on the store it leaves is answered with 404; a DELETE of an id with no
  stored record is answered with 404 and changes nothing.
\<close>

theorem delete_account_then_read:
  "(find_account s i \<noteq> None \<longrightarrow>
      fst (delete_account s i) = Inr \<lparr>status = 204, headers = [], body = Text ''''\<rparr>
      \<and> read_an_account (snd (delete_account s i)) i
          = (Inl (not_found i), snd (delete_account s i))
      \<and> http_status (fst (read_an_account (snd (delete_account s i)) i)) = 404)
   \<and> (find_account s i = None \<longrightarrow>
      delete_account s i = (Inl (not_found i), s)
      \<and> http_status (fst (delete_account s i)) = 404)"
proof (intro conjI impI)
  assume "find_account s i \<noteq> None"
  then obtain a where a: "find_account s i = Some a"
    by auto
  then have gone: "find_account (delete s a) i = None"
    by (simp add: find_account_id find_account_delete)
  from a show "fst (delete_account s i) = Inr \<lparr>status = 204, headers = [], body = Text ''''\<rparr>"
    by (simp add: delete_account_def make_response_def status_defs)
  from a gone show "read_an_account (snd (delete_account s i)) i
      = (Inl (not_found i), snd (delete_account s i))"
    by (simp add: delete_account_def read_an_account_def)
  then show "http_status (fst (read_an_account (snd (delete_account s i)) i)) = 404"
    by (simp add: error_status_not_found)
next
  assume "find_account s i = None"
  then show "delete_account s i = (Inl (not_found i), s)"
    by (simp add: delete_account_def)
  then show "http_status (fst (delete_account s i)) = 404"
    by (simp add: error_status_not_found)
qed

theorem delete_account_then_read_witness:
  "find_account store_ann 1 \<noteq> None
   \<and> delete_account store_ann 1
       = (Inr \<lparr>status = 204, headers = [], body = Text ''''\<rparr>, \<lparr>rows = [], next_id = 2\<rparr>)
   \<and> http_status (fst (read_an_account \<lparr>rows = [], next_id = 2\<rparr> 1)) = 404
   \<and> find_account store_ann 0 = None
   \<and> http_status (fst (delete_account store_ann 0)) = 404"
proof -
  have there: "find_account store_ann 1 \<noteq> None"
    by (simp add: find_account_def store_ann_def ann_stored_def)
  have missing: "find_account store_ann 0 = None"
    by (simp add: find_account_def store_ann_def ann_stored_def)
  have left: "snd (delete_account store_ann 1) = \<lparr>rows = [], next_id = 2\<rparr>"
    by (simp add: delete_account_def find_account_def store_ann_def ann_stored_def delete_def)
  from delete_account_then_read [of store_ann 1] delete_account_then_read [of store_ann 0]
    there missing left
  show ?thesis
    by (simp add: prod_eq_iff error_status_not_found)
qed

section \<open>Create with a missing attribute\<close>

text \<open>
  C7: a POST to \<^verbatim>\<open>/accounts\<close> with Content-Type \<^verbatim>\<open>application/json\<close> whose body
  has no \<^verbatim>\<open>name\<close>, no \<^verbatim>\<open>email\<close> or no \<^verbatim>\<open>address\<close> is answered with 400, and no
  account is created.
\<close>

theorem create_accounts_missing_key:
  assumes "content_type req = Some ''application/json''"
    and "get_json fl req = Inr (JObj data)"
    and "map_of data ''name'' = None \<or> map_of data ''email'' = None
         \<or> map_of data ''address'' = None"
  shows "http_status (fst (create_accounts fl today s req)) = 400
         \<and> snd (create_accounts fl today s req) = s"
proof -
  have "\<exists>e. deserialize today Account (JObj data) = Inl e"
    using assms(3)
    by (auto simp: required_string_missing split: sum.splits)
  then obtain e where e: "deserialize today Account (JObj data) = Inl e"
    by blast
  with assms(1,2) show ?thesis
    by (simp add: create_accounts_checked deserialize_error_status del: deserialize.simps)
qed

theorem create_accounts_missing_key_witness:
  "http_status (fst (create_accounts Raises_415 ''2024-05-02'' store_ann
       (json_request (JObj [(''name'', JStr ''not enough data'')])))) = 400
   \<and> snd (create_accounts Raises_415 ''2024-05-02'' store_ann
       (json_request (JObj [(''name'', JStr ''not enough data'')]))) = store_ann"
  using create_accounts_missing_key
    [where req = "json_request (JObj [(''name'', JStr ''not enough data'')])"
       and data = "[(''name'', JStr ''not enough data'')]" and fl = Raises_415
       and today = "''2024-05-02''" and s = store_ann]
  by (simp add: json_request_def get_json_exact)

section \<open>List\<close>

lemma serialize_each_map: "serialize_each accounts result = accounts @ map serialize result"
  by (induction result arbitrary: accounts) simp_all

lemma list_all_accounts_eq:
  "list_all_accounts s =
     (Inr \<lparr>status = 200, headers = [], body = Json (JArr (map serialize (rows s)))\<rparr>, s)"
  by (simp add: list_all_accounts_def all_accounts_def serialize_each_map make_response_def
      jsonify_def status_defs Let_def)

lemma create_accounts_rows:
  assumes "create_accounts fl today s req = (r, s')"
  shows "length (rows s') = length (rows s) + (if created r then 1 else 0)"
proof (cases "content_type req = Some ''application/json''")
  case False
  with assms show ?thesis
    by (auto simp: create_accounts_rejects)
next
  case True
  with assms show ?thesis
    by (auto simp: create_accounts_checked create_def Let_def status_defs split: sum.splits)
qed

lemma create_accounts_seq_rows:
  "create_accounts_seq fl today s reqs = (rs, s') \<Longrightarrow>
   length (rows s') = length (rows s) + length (filter created rs)"
proof (induction reqs arbitrary: s rs s')
  case Nil
  then show ?case by simp
next
  case (Cons req reqs)
  obtain r s1 where first: "create_accounts fl today s req = (r, s1)"
    by (cases "create_accounts fl today s req")
  obtain rs' s2 where rest: "create_accounts_seq fl today s1 reqs = (rs', s2)"
    by (cases "create_accounts_seq fl today s1 reqs")
  from Cons.prems first rest have "rs = r # rs'" and "s' = s2"
    by simp_all
  with Cons.IH [OF rest] create_accounts_rows [OF first] show ?case
    by simp
qed

text \<open>
  C8: a GET of \<^verbatim>\<open>/accounts\<close> is always answered with 200 and a JSON array, one
  serialized entry for each stored record: after the requests that created N accounts
  in an empty store the array has exactly N entries, and on the empty store it is the
  empty array.
\<close>

theorem list_all_accounts_after_creates:
  "(create_accounts_seq fl today empty_store reqs = (rs, s') \<longrightarrow>
      list_all_accounts s' =
        (Inr \<lparr>status = 200, headers = [], body = Json (JArr (map serialize (rows s')))\<rparr>, s')
      \<and> length (map serialize (rows s')) = length (filter created rs))
   \<and> list_all_accounts empty_store =
        (Inr \<lparr>status = 200, headers = [], body = Json (JArr [])\<rparr>, empty_store)"
proof (intro conjI impI)
  show "list_all_accounts s' =
      (Inr \<lparr>status = 200, headers = [], body = Json (JArr (map serialize (rows s')))\<rparr>, s')"
    by (rule list_all_accounts_eq)
next
  assume "create_accounts_seq fl today empty_store reqs = (rs, s')"
  from create_accounts_seq_rows [OF this]
  show "length (map serialize (rows s')) = length (filter created rs)"
    by (simp add: empty_store_def)
next
  show "list_all_accounts empty_store =
      (Inr \<lparr>status = 200, headers = [], body = Json (JArr [])\<rparr>, empty_store)"
    by (simp add: list_all_accounts_eq empty_store_def)
qed

lemma two_created:
  "create_accounts_seq Raises_415 ''2024-05-01'' empty_store
     [json_request ann, json_request (JObj [(''name'', JStr ''not enough data'')]),
      json_request ann_new_email]
   = ([Inr \<lparr>status = 201, headers = [(''Location'', ''/'')], body = Json (serialize ann_stored)\<rparr>,
       Inl (ValidationError ''email''),
       Inr \<lparr>status = 201, headers = [(''Location'', ''/'')], body = Json (serialize ann_second)\<rparr>],
      store_two)"
  by (simp add: create_accounts_checked get_json_exact json_request_def ann_def
      ann_new_email_def required_string.simps optional_string.simps Account_def create_def
      empty_store_def ann_stored_def ann_second_def store_two_def Let_def)

theorem list_all_accounts_after_creates_witness:
  "create_accounts_seq Raises_415 ''2024-05-01'' empty_store
     [json_request ann, json_request (JObj [(''name'', JStr ''not enough data'')]),
      json_request ann_new_email]
   = ([Inr \<lparr>status = 201, headers = [(''Location'', ''/'')], body = Json (serialize ann_stored)\<rparr>,
       Inl (ValidationError ''email''),
       Inr \<lparr>status = 201, headers = [(''Location'', ''/'')], body = Json (serialize ann_second)\<rparr>],
      store_two)
   \<and> list_all_accounts store_two
     = (Inr \<lparr>status = 200, headers = [],
          body = Json (JArr [serialize ann_stored, serialize ann_second])\<rparr>, store_two)
   \<and> length (filter created
        [Inr \<lparr>status = 201, headers = [(''Location'', ''/'')], body = Json (serialize ann_stored)\<rparr>,
         Inl (ValidationError ''email''),
         Inr \<lparr>status = 201, headers = [(''Location'', ''/'')],
            body = Json (serialize ann_second)\<rparr>])
      = 2"
  using two_created
    list_all_accounts_after_creates [THEN conjunct1, rule_format, OF two_created]
  by (simp add: status_defs store_two_def)

section \<open>Round trip\<close>

lemma deserialize_Inr:
  assumes "deserialize today a payload = Inr b"
  shows "\<exists>data. payload = JObj data
     \<and> map_of data ''name'' = Some (JStr (name b))
     \<and> map_of data ''email'' = Some (JStr (email b))
     \<and> map_of data ''address'' = Some (JStr (address b))
     \<and> phone_number b = (case map_of data ''phone_number'' of
          Some (JStr x) \<Rightarrow> Some x | _ \<Rightarrow> None)
     \<and> acc_id b = acc_id a"
proof (cases payload)
  case (JObj data)
  with assms show ?thesis
    by (auto simp: required_string_Inr optional_string_Inr split: sum.splits)
qed (use assms in simp_all)

lemma deserialize_serialize:
  "deserialize today a (serialize b) =
     Inr (a\<lparr>name := name b, email := email b, address := address b,
            phone_number := phone_number b,
            date_joined := (case date_joined b of None \<Rightarrow> Some today | Some d \<Rightarrow> Some d)\<rparr>)"
  by (cases "phone_number b"; cases "date_joined b")
    (simp_all add: serialize_def required_string.simps
      optional_string.simps)

text \<open>
  C9: for every payload that deserializes into an account, the entity that
  \<^verbatim>\<open>create\<close> stores for it serializes to a body that deserializes again, with the
  \<^verbatim>\<open>name\<close>, \<^verbatim>\<open>email\<close>, \<^verbatim>\<open>address\<close> and \<^verbatim>\<open>phone_number\<close> of the payload.
\<close>

theorem deserialize_serialize_create:
  assumes "deserialize today Account payload = Inr a"
    and "create today s a = (s', a')"
  shows "\<exists>data b. payload = JObj data
     \<and> deserialize later Account (serialize a') = Inr b
     \<and> map_of data ''name'' = Some (JStr (name b))
     \<and> map_of data ''email'' = Some (JStr (email b))
     \<and> map_of data ''address'' = Some (JStr (address b))
     \<and> phone_number b = (case map_of data ''phone_number'' of
          Some (JStr x) \<Rightarrow> Some x | _ \<Rightarrow> None)
     \<and> name b = name a \<and> email b = email a \<and> address b = address a
     \<and> phone_number b = phone_number a"
proof -
  from deserialize_Inr [OF assms(1)] obtain data where data: "payload = JObj data"
    "map_of data ''name'' = Some (JStr (name a))"
    "map_of data ''email'' = Some (JStr (email a))"
    "map_of data ''address'' = Some (JStr (address a))"
    "phone_number a = (case map_of data ''phone_number'' of
          Some (JStr x) \<Rightarrow> Some x | _ \<Rightarrow> None)"
    by blast
  from assms(2) have same: "name a' = name a" "email a' = email a" "address a' = address a"
    "phone_number a' = phone_number a"
    by (auto simp: create_def Let_def)
  define b where "b = Account\<lparr>name := name a', email := email a', address := address a',
            phone_number := phone_number a',
            date_joined := (case date_joined a' of None \<Rightarrow> Some later | Some d \<Rightarrow> Some d)\<rparr>"
  have "deserialize later Account (serialize a') = Inr b"
    unfolding b_def by (rule deserialize_serialize)
  moreover have "name b = name a" "email b = email a" "address b = address a"
    "phone_number b = phone_number a"
    using same by (simp_all add: b_def)
  ultimately show ?thesis
    using data by auto
qed

theorem deserialize_serialize_create_witness:
  "deserialize ''2024-05-01'' Account ann = Inr (ann_stored\<lparr>acc_id := None\<rparr>)
   \<and> create ''2024-05-01'' empty_store (ann_stored\<lparr>acc_id := None\<rparr>) = (store_ann, ann_stored)
   \<and> (\<exists>b. deserialize ''2024-06-30'' Account (serialize ann_stored) = Inr b
        \<and> name b = ''Ann'' \<and> email b = ''a@x.com'' \<and> address b = ''1 Main St''
        \<and> phone_number b = None)"
proof -
  have d: "deserialize ''2024-05-01'' Account ann = Inr (ann_stored\<lparr>acc_id := None\<rparr>)"
    by (simp add: ann_def ann_stored_def Account_def required_string.simps
        optional_string.simps)
  have c: "create ''2024-05-01'' empty_store (ann_stored\<lparr>acc_id := None\<rparr>)
      = (store_ann, ann_stored)"
    by (simp add: create_def empty_store_def store_ann_def ann_stored_def Let_def)
  from deserialize_serialize_create [OF d c, of "''2024-06-30''"] d c show ?thesis
    by (auto simp: ann_stored_def)
qed

section \<open>What the handlers do in the scenario of the specification\<close>

lemma str_int_1: "str_int 1 = ''1''"
  by (simp add: str_int_def str_nat.simps)

text \<open>
  C2 (as the code behaves): the POST of the scenario is answered with 201 and the
  serialized entity, which has id 1, but its \<^verbatim>\<open>Location\<close> header is the root path
  \<^verbatim>\<open>/\<close>, not the path \<^verbatim>\<open>/accounts/1\<close> of the account created.
\<close>

theorem create_accounts_location_is_root:
  "create_accounts Raises_415 ''2024-05-01'' empty_store (json_request ann)
     = (Inr \<lparr>status = 201, headers = [(''Location'', ''/'')],
              body = Json (serialize ann_stored)\<rparr>, store_ann)
   \<and> acc_id ann_stored = Some 1
   \<and> account_path 1 = ''/accounts/1''
   \<and> map_of [(''Location'', ''/'')] ''Location'' \<noteq> Some (account_path 1)"
  by (simp add: create_accounts_checked get_json_exact json_request_def ann_def
      required_string.simps optional_string.simps Account_def create_def
      empty_store_def ann_stored_def store_ann_def Let_def account_path_def str_int_1)

lemma deserialize_Account_id:
  "deserialize today Account payload = Inr b \<Longrightarrow> acc_id b = None"
  by (drule deserialize_Inr) (auto simp: Account_def)

lemma update_account_store:
  "snd (update_account fl today s i req) = s"
  by (auto simp: update_account_def update_def dest: deserialize_Account_id
      split: option.splits sum.splits)

text \<open>
  C1 (as the code behaves): in the store that holds Ann with id 1, the PUT of the
  scenario to \<^verbatim>\<open>/accounts/1\<close> is answered with 200 and a body with the new email
  but with no id, and it leaves the store as it was: a GET of \<^verbatim>\<open>/accounts/1\<close>
  afterwards still returns the old email.
\<close>

theorem update_account_leaves_record:
  "update_account Raises_415 ''2024-05-02'' store_ann 1 (json_request ann_new_email)
     = (Inr \<lparr>status = 200, headers = [],
          body = Json (JObj [(''id'', JNull), (''name'', JStr ''Ann''),
            (''email'', JStr ''b@x.com''), (''address'', JStr ''1 Main St''),
            (''phone_number'', JNull), (''date_joined'', JStr ''2024-05-02'')])\<rparr>,
        store_ann)
   \<and> read_an_account store_ann 1
     = (Inr \<lparr>status = 200, headers = [],
          body = Json (JObj [(''id'', JNum 1), (''name'', JStr ''Ann''),
            (''email'', JStr ''a@x.com''), (''address'', JStr ''1 Main St''),
            (''phone_number'', JNull), (''date_joined'', JStr ''2024-05-01'')])\<rparr>,
        store_ann)"
  by (simp add: update_account_def get_json_exact read_an_account_def find_account_def
      store_ann_def ann_stored_def json_request_def ann_new_email_def
      required_string.simps optional_string.simps Account_def update_def serialize_def
      make_response_def jsonify_def status_defs)

end
